theory Spec2Isabelle
  imports Main
begin

section \<open>Python strings\<close>

text \<open>
  A Python \<open>str\<close> is modelled as a \<open>string\<close> whose characters are the code points
  0..255; on that range \<open>str.isspace\<close> and the regular expression class \<open>\d\<close> are the
  two tables below. Code points above 255 are outside the model.
\<close>

definition isspace :: "char \<Rightarrow> bool" where
  "isspace c = (c \<in> set [CHR 0x09, CHR 0x0A, CHR 0x0B, CHR 0x0C, CHR 0x0D,
                         CHR 0x1C, CHR 0x1D, CHR 0x1E, CHR 0x1F, CHR 0x20,
                         CHR 0x85, CHR 0xA0])"

definition isdigit :: "char \<Rightarrow> bool" where
  "isdigit c = (c \<in> set ''0123456789'')"

text \<open>\<open>s.strip()\<close>: leading and trailing whitespace removed.\<close>

definition strip :: "string \<Rightarrow> string" where
  "strip s = rev (dropWhile isspace (rev (dropWhile isspace s)))"

fun startswith :: "string \<Rightarrow> string \<Rightarrow> bool" where
  "startswith s [] = True"
| "startswith [] (p # ps) = False"
| "startswith (c # cs) (p # ps) = (c = p \<and> startswith cs ps)"

text \<open>
  \<open>s.replace(old, new)\<close>: every non-overlapping occurrence of \<open>old\<close>, found from the
  left, is replaced. The counter of \<open>replace_from\<close> is the number of characters of a
  match that are still to be passed over.
\<close>

fun replace_from :: "string \<Rightarrow> string \<Rightarrow> nat \<Rightarrow> string \<Rightarrow> string" where
  "replace_from old new k [] = []"
| "replace_from old new (Suc k) (c # cs) = replace_from old new k cs"
| "replace_from old new 0 (c # cs) =
     (if startswith (c # cs) old then new @ replace_from old new (length old - 1) cs
      else c # replace_from old new 0 cs)"

definition replace :: "string \<Rightarrow> string \<Rightarrow> string \<Rightarrow> string" where
  "replace s old new =
     (if old = [] then new @ concat (map (\<lambda>c. c # new) s)
      else replace_from old new 0 s)"

text \<open>\<open>s.split(sep, 1)\<close> for a separator of one character: at most one cut, at the first \<open>sep\<close>.\<close>

definition split1 :: "string \<Rightarrow> char \<Rightarrow> string list" where
  "split1 s sep =
     (if sep \<in> set s then [takeWhile (\<lambda>c. c \<noteq> sep) s, tl (dropWhile (\<lambda>c. c \<noteq> sep) s)]
      else [s])"

text \<open>\<open>re.sub(r'[^\d]', '', s)\<close>: the characters of \<open>s\<close> that are decimal digits, in order.\<close>

definition sub_non_digits :: "string \<Rightarrow> string" where
  "sub_non_digits s = filter isdigit s"

section \<open>Exceptions\<close>

datatype py_error =
    IndexError
  | ValueError
  | RequestException string
  | ParserRejectedMarkup string

text \<open>\<open>xs[i]\<close> for a non-negative index: out of range it raises.\<close>

definition getitem :: "'a list \<Rightarrow> nat \<Rightarrow> py_error + 'a" where
  "getitem xs i = (if i < length xs then Inr (xs ! i) else Inl IndexError)"

text \<open>
  \<open>int(s)\<close> on the strings the normalizer passes to it, which hold decimal digits only
  (the result of \<open>sub_non_digits\<close>): the empty string raises \<open>ValueError\<close>, any other
  one is read as a decimal numeral. Signs, blanks and underscores, which \<open>int\<close> also reads,
  never reach it and are not modelled: such a string is rejected here. A string of more
  digits than \<open>max_str_digits\<close>, the interpreter's default limit on conversions between
  \<open>str\<close> and \<open>int\<close>, raises \<open>ValueError\<close> as well.
\<close>

definition max_str_digits :: nat where
  "max_str_digits = 4300"

definition digit_value :: "char \<Rightarrow> int" where
  "digit_value c = int (of_char c) - 48"

definition py_int :: "string \<Rightarrow> py_error + int" where
  "py_int s =
     (if s = [] \<or> \<not> list_all isdigit s then Inl ValueError
      else if length s > max_str_digits then Inl ValueError
      else Inr (foldl (\<lambda>n c. 10 * n + digit_value c) 0 s))"

text \<open>
  \<open>str(n)\<close> for an integer: the decimal numeral, with a minus sign below zero. The limit
  of \<open>max_str_digits\<close> is out of reach of the integers the program renders: page
  numbers, counts, and a calendar year (1 to 9999) less a number read by \<open>py_int\<close>.
\<close>

fun str_nat :: "nat \<Rightarrow> string" where
  "str_nat n =
     (if n < 10 then [''0123456789'' ! n]
      else str_nat (n div 10) @ [''0123456789'' ! (n mod 10)])"

declare str_nat.simps [simp del]

definition py_str :: "int \<Rightarrow> string" where
  "py_str i = (if i < 0 then CHR ''-'' # str_nat (nat (- i)) else str_nat (nat i))"

section \<open>The document tree\<close>

text \<open>
  What BeautifulSoup gives back: a tag with its name, the tokens of its \<open>class\<close>
  attribute and its children, or a piece of text.
\<close>

datatype node =
    Tag (name: string) (attr_class: "string list") (contents: "node list")
  | NavigableString string

text \<open>All nodes below a node, in document order (a piece of text has none).\<close>

fun descendants :: "node \<Rightarrow> node list" where
  "descendants (Tag n cs ch) = concat (map (\<lambda>c. c # descendants c) ch)"
| "descendants (NavigableString s) = []"

text \<open>\<open>node.text\<close>: the pieces of text below the node, concatenated.\<close>

fun get_text :: "node \<Rightarrow> string" where
  "get_text (Tag n cs ch) = concat (map get_text ch)"
| "get_text (NavigableString s) = s"

fun join_space :: "string list \<Rightarrow> string" where
  "join_space [] = []"
| "join_space [c] = c"
| "join_space (c # d # cs) = c @ '' '' @ join_space (d # cs)"

text \<open>
  The filter \<open>(tag, class_=c)\<close>: the node is a tag of that name, and \<open>c\<close> is one of
  its class tokens or the whole class attribute. \<open>None\<close> for the class means no filter on it.
\<close>

fun matches :: "string \<Rightarrow> string option \<Rightarrow> node \<Rightarrow> bool" where
  "matches t None (Tag n cs ch) = (n = t)"
| "matches t (Some c) (Tag n cs ch) = (n = t \<and> (c \<in> set cs \<or> join_space cs = c))"
| "matches t c (NavigableString s) = False"

definition find_all :: "node \<Rightarrow> string \<Rightarrow> string option \<Rightarrow> node list" where
  "find_all d t c = filter (matches t c) (descendants d)"

definition find :: "node \<Rightarrow> string \<Rightarrow> string option \<Rightarrow> node option" where
  "find d t c = (case find_all d t c of [] \<Rightarrow> None | x # _ \<Rightarrow> Some x)"

section \<open>extract_car_details\<close>

record raw_car =
  Nom_Total :: string
  Marque :: string
  Modele :: string
  Carburant :: string
  Boite :: string
  Prix :: string
  Kilometrage :: string
  Annee :: string

datatype event =
    HttpGet string
  | Sleep nat
  | LogInfo string
  | LogWarning string
  | LogError string
  | FileOpen string
  | CsvRow "string list"

definition error_text :: "py_error \<Rightarrow> string" where
  "error_text e =
     (case e of IndexError \<Rightarrow> ''list index out of range''
      | ValueError \<Rightarrow> ''invalid literal for int() with base 10: '' @ [CHR 0x27, CHR 0x27]
      | RequestException m \<Rightarrow> m
      | ParserRejectedMarkup m \<Rightarrow> m)"

text \<open>\<open>x.text.strip() if x else 'N/A'\<close>\<close>

definition text_or_na :: "node option \<Rightarrow> string" where
  "text_or_na x = (case x of Some n \<Rightarrow> strip (get_text n) | None \<Rightarrow> ''N/A'')"

text \<open>
  The body of the \<open>try\<close>: \<open>Inl\<close> is an exception raised inside it, \<open>Inr None\<close> one of the
  two early returns.
\<close>

definition extract_try :: "node \<Rightarrow> py_error + raw_car option" where
  "extract_try car_div =
     (let car_name = text_or_na (find car_div ''h3'' (Some ''lib-car''));
          name_parts = split1 car_name CHR '' ''
      in case getitem name_parts 0 of Inl e \<Rightarrow> Inl e | Inr brand \<Rightarrow>
         (case (if length name_parts > 1 then getitem name_parts 1 else Inr ''N/A'') of
            Inl e \<Rightarrow> Inl e | Inr model \<Rightarrow>
         (let price = (case find car_div ''div'' (Some ''price'') of
                         Some p \<Rightarrow> replace (replace (strip (get_text p)) '' '' '''') ''DT'' ''''
                       | None \<Rightarrow> ''N/A'');
              options = find_all car_div ''div'' (Some ''options'')
          in if options = [] then Inr None
             else case getitem options 0 of Inl e \<Rightarrow> Inl e | Inr opts \<Rightarrow>
               (let option_divs = find_all opts ''div'' None
                in if length option_divs < 4 then Inr None
                   else case getitem option_divs 0 of Inl e \<Rightarrow> Inl e | Inr d0 \<Rightarrow>
                       (case getitem option_divs 1 of Inl e \<Rightarrow> Inl e | Inr d1 \<Rightarrow>
                       (case getitem option_divs 2 of Inl e \<Rightarrow> Inl e | Inr d2 \<Rightarrow>
                       (case getitem option_divs 3 of Inl e \<Rightarrow> Inl e | Inr d3 \<Rightarrow>
                       (let year = text_or_na (find d0 ''span'' None);
                            kilometers = (case find d1 ''span'' None of
                                            Some k \<Rightarrow> replace (replace (strip (get_text k)) '' Km'' '''') '' '' ''''
                                          | None \<Rightarrow> ''N/A'');
                            fuel_type = text_or_na (find d2 ''span'' None);
                            transmission = text_or_na (find d3 ''span'' None)
                        in Inr (Some \<lparr>Nom_Total = car_name, Marque = brand, Modele = model,
                                      Carburant = fuel_type, Boite = transmission, Prix = price,
                                      Kilometrage = kilometers, Annee = year\<rparr>)))))))))"

text \<open>
  The function itself: the record or \<open>None\<close>, and what it logs. \<open>except Exception\<close>
  catches every exception of the body.
\<close>

definition extract_car_details :: "node \<Rightarrow> raw_car option \<times> event list" where
  "extract_car_details car_div =
     (case extract_try car_div of
        Inr r \<Rightarrow> (r, [])
      | Inl e \<Rightarrow> (None, [LogError (''Error extracting car details: '' @ error_text e)]))"

section \<open>clean_and_format_data\<close>

record cleaned_car =
  c_Nom_Total :: string
  c_Marque :: string
  c_Modele :: string
  c_Annee :: string
  c_Age_Years :: string
  c_Kilometrage_Km :: string
  c_Carburant :: string
  c_Boite :: string
  c_Prix_DT :: string

text \<open>\<open>re.sub(r'[^\d]', '', x) if x != 'N/A' else 'N/A'\<close>, written three times in the source.\<close>

definition scrub :: "string \<Rightarrow> string" where
  "scrub x = (if x \<noteq> ''N/A'' then sub_non_digits x else ''N/A'')"

text \<open>
  The age, from the scrubbed year; \<open>current_year\<close> is \<open>datetime.now().year\<close>. The handler
  catches \<open>ValueError\<close> only.
\<close>

definition compute_age :: "int \<Rightarrow> string \<Rightarrow> py_error + string" where
  "compute_age current_year year =
     (if year \<noteq> ''N/A'' then
        (case py_int year of
           Inr n \<Rightarrow> Inr (py_str (current_year - n))
         | Inl ValueError \<Rightarrow> Inr ''N/A''
         | Inl e \<Rightarrow> Inl e)
      else Inr ''N/A'')"

definition clean_car :: "int \<Rightarrow> raw_car \<Rightarrow> py_error + cleaned_car" where
  "clean_car current_year car =
     (let year = scrub (Annee car)
      in case compute_age current_year year of
           Inl e \<Rightarrow> Inl e
         | Inr age \<Rightarrow>
             Inr \<lparr>c_Nom_Total = Nom_Total car, c_Marque = Marque car, c_Modele = Modele car,
                  c_Annee = year, c_Age_Years = age,
                  c_Kilometrage_Km = scrub (Kilometrage car),
                  c_Carburant = Carburant car, c_Boite = Boite car,
                  c_Prix_DT = scrub (Prix car)\<rparr>)"

fun clean_loop :: "int \<Rightarrow> raw_car option list \<Rightarrow> cleaned_car list \<Rightarrow> py_error + cleaned_car list" where
  "clean_loop current_year [] cleaned_cars = Inr cleaned_cars"
| "clean_loop current_year (None # cars) cleaned_cars = clean_loop current_year cars cleaned_cars"
| "clean_loop current_year (Some car # cars) cleaned_cars =
     (case clean_car current_year car of
        Inl e \<Rightarrow> Inl e
      | Inr cleaned_car \<Rightarrow> clean_loop current_year cars (cleaned_cars @ [cleaned_car]))"

definition clean_and_format_data :: "int \<Rightarrow> raw_car option list \<Rightarrow> py_error + cleaned_car list" where
  "clean_and_format_data current_year cars = clean_loop current_year cars []"

section \<open>scrape_car_listings\<close>

text \<open>
  The transport is a parameter: \<open>fetch url\<close> is what \<open>requests.get(url, verify=False,
  timeout=10)\<close> does, \<open>Inl m\<close> when it raises a \<open>RequestException\<close> with message \<open>m\<close> (the
  only exceptions the library raises), a response otherwise. So is the parser:
  \<open>parse text\<close> is what \<open>BeautifulSoup(text, 'html.parser')\<close> does, the root of the tree
  or the exception it raises on markup it rejects.
\<close>

record response =
  status_code :: int
  reason :: string
  resp_url :: string
  resp_text :: string

definition raise_for_status :: "response \<Rightarrow> py_error + unit" where
  "raise_for_status r =
     (if 400 \<le> status_code r \<and> status_code r < 500 then
        Inl (RequestException (py_str (status_code r) @ '' Client Error: '' @ reason r
                                 @ '' for url: '' @ resp_url r))
      else if 500 \<le> status_code r \<and> status_code r < 600 then
        Inl (RequestException (py_str (status_code r) @ '' Server Error: '' @ reason r
                                 @ '' for url: '' @ resp_url r))
      else Inr ())"

record walk_state =
  all_cars :: "raw_car list"
  trace :: "event list"

definition page_url :: "string \<Rightarrow> int \<Rightarrow> string" where
  "page_url base_url page = base_url @ ''&page='' @ py_str page"

fun extract_loop :: "node list \<Rightarrow> walk_state \<Rightarrow> walk_state" where
  "extract_loop [] s = s"
| "extract_loop (car_div # car_divs) s =
     (case extract_car_details car_div of
        (Some car_details, logs) \<Rightarrow>
          extract_loop car_divs (s\<lparr>all_cars := all_cars s @ [car_details], trace := trace s @ logs\<rparr>)
      | (None, logs) \<Rightarrow> extract_loop car_divs (s\<lparr>trace := trace s @ logs\<rparr>))"

text \<open>
  The body of the \<open>try\<close> for one page: the exception that leaves it, if any, and the state
  as it is then.
\<close>

definition page_try ::
  "(string \<Rightarrow> string + response) \<Rightarrow> (string \<Rightarrow> py_error + node) \<Rightarrow> string \<Rightarrow> int
     \<Rightarrow> walk_state \<Rightarrow> py_error option \<times> walk_state" where
  "page_try fetch parse base_url page s =
     (let url = page_url base_url page;
          s1 = s\<lparr>trace := trace s @ [HttpGet url]\<rparr>
      in case fetch url of
           Inl m \<Rightarrow> (Some (RequestException m), s1)
         | Inr response \<Rightarrow>
             (case raise_for_status response of
                Inl e \<Rightarrow> (Some e, s1)
              | Inr _ \<Rightarrow>
                  (case parse (resp_text response) of
                     Inl e \<Rightarrow> (Some e, s1)
                   | Inr soup \<Rightarrow>
                       (let car_divs = find_all soup ''div''
                                         (Some ''box-product listing-item effect-item h-100'');
                            s2 = extract_loop car_divs s1
                        in (None, s2\<lparr>trace := trace s2 @
                              [LogInfo (''Scraped page '' @ py_str page @ '': ''
                                          @ py_str (int (length car_divs)) @ '' cars found''),
                               Sleep 1]\<rparr>)))))"

text \<open>
  One turn of the loop: \<open>except requests.RequestException\<close> around the body. Any other
  exception goes on, out of the loop.
\<close>

definition scrape_page ::
  "(string \<Rightarrow> string + response) \<Rightarrow> (string \<Rightarrow> py_error + node) \<Rightarrow> string \<Rightarrow> int
     \<Rightarrow> walk_state \<Rightarrow> py_error option \<times> walk_state" where
  "scrape_page fetch parse base_url page s =
     (case page_try fetch parse base_url page s of
        (Some (RequestException m), s') \<Rightarrow>
          (None, s'\<lparr>trace := trace s' @
             [LogError (''Error scraping page '' @ py_str page @ '': '' @ m)]\<rparr>)
      | (Some e, s') \<Rightarrow> (Some e, s')
      | (None, s') \<Rightarrow> (None, s'))"

fun scrape_loop ::
  "(string \<Rightarrow> string + response) \<Rightarrow> (string \<Rightarrow> py_error + node) \<Rightarrow> string \<Rightarrow> int list
     \<Rightarrow> walk_state \<Rightarrow> py_error option \<times> walk_state" where
  "scrape_loop fetch parse base_url [] s = (None, s)"
| "scrape_loop fetch parse base_url (page # pages) s =
     (case scrape_page fetch parse base_url page s of
        (Some e, s') \<Rightarrow> (Some e, s')
      | (None, s') \<Rightarrow> scrape_loop fetch parse base_url pages s')"

text \<open>
  The result is the list returned, or the exception that leaves the function, with
  everything the run did: requests sent, pauses and log lines, in order.
\<close>

definition scrape_car_listings ::
  "(string \<Rightarrow> string + response) \<Rightarrow> (string \<Rightarrow> py_error + node) \<Rightarrow> string \<Rightarrow> int
     \<Rightarrow> (py_error + raw_car list) \<times> event list" where
  "scrape_car_listings fetch parse base_url max_pages =
     (case scrape_loop fetch parse base_url [1..max_pages] \<lparr>all_cars = [], trace = []\<rparr> of
        (Some e, s) \<Rightarrow> (Inl e, trace s)
      | (None, s) \<Rightarrow> (Inr (all_cars s), trace s))"

section \<open>save_to_csv\<close>

definition fieldnames :: "string list" where
  "fieldnames = [''Nom Total'', ''Marque'', ''Modele'', ''Annee'', ''Age (Years)'',
                 ''Kilometrage (Km)'', ''Carburant'', ''Boite'', ''Prix (DT)'']"

definition row_of :: "cleaned_car \<Rightarrow> string list" where
  "row_of c = [c_Nom_Total c, c_Marque c, c_Modele c, c_Annee c, c_Age_Years c,
               c_Kilometrage_Km c, c_Carburant c, c_Boite c, c_Prix_DT c]"

text \<open>
  The file system is a parameter: the file is written; or \<open>open\<close> raises an \<open>IOError\<close>,
  and nothing reaches the writer; or an \<open>IOError\<close> is raised once \<open>k\<close> rows, the header
  among them, have been written (at the next row, or when the file is closed). The
  handler logs the message in both cases. \<open>FileOpen\<close> is the file opened for writing and
  \<open>CsvRow\<close> one row handed to it, in the order of \<open>fieldnames\<close>.
\<close>

datatype io_outcome = Written | OpenFails string | WriteFails nat string

definition save_to_csv ::
  "io_outcome \<Rightarrow> int \<Rightarrow> raw_car option list \<Rightarrow> string \<Rightarrow> py_error option \<times> event list" where
  "save_to_csv io_error current_year cars filename =
     (if cars = [] then (None, [LogWarning ''No data to save''])
      else case clean_and_format_data current_year cars of
             Inl e \<Rightarrow> (Some e, [])
           | Inr cleaned_cars \<Rightarrow>
               (let rows = fieldnames # map row_of cleaned_cars
                in case io_error of
                     OpenFails m \<Rightarrow> (None, [LogError (''Error saving CSV: '' @ m)])
                   | WriteFails k m \<Rightarrow>
                       (None, FileOpen filename # map CsvRow (take k rows)
                                @ [LogError (''Error saving CSV: '' @ m)])
                   | Written \<Rightarrow>
                       (None, FileOpen filename # map CsvRow rows
                                @ [LogInfo (''Data saved to '' @ filename)])))"

section \<open>Notions of the specification and sample inputs\<close>

text \<open>
  The first whitespace-delimited token of a string, as the specification words the brand:
  leading whitespace passed over, then everything up to the next whitespace character.
\<close>

definition spec_first_token :: "string \<Rightarrow> string" where
  "spec_first_token s = takeWhile (\<lambda>c. \<not> isspace c) (dropWhile isspace s)"

text \<open>The listing card of the specification's worked example.\<close>

definition example_block :: node where
  "example_block = Tag ''div'' [''box-product'', ''listing-item'', ''effect-item'', ''h-100'']
     [Tag ''h3'' [''lib-car''] [NavigableString ''Toyota Corolla''],
      Tag ''div'' [''price''] [NavigableString ''45 000 DT''],
      Tag ''div'' [''options'']
        [Tag ''div'' [] [Tag ''span'' [] [NavigableString ''2015'']],
         Tag ''div'' [] [Tag ''span'' [] [NavigableString ''80 000 Km'']],
         Tag ''div'' [] [Tag ''span'' [] [NavigableString ''Diesel'']],
         Tag ''div'' [] [Tag ''span'' [] [NavigableString ''Automatique'']]]]"

text \<open>
  The entries of a batch that are records, in order: the normalizer's loop passes over
  every \<open>None\<close>.
\<close>

fun present :: "'a option list \<Rightarrow> 'a list" where
  "present [] = []"
| "present (None # xs) = present xs"
| "present (Some x # xs) = x # present xs"

text \<open>
  A raw record whose year, mileage and price texts hold no digit: an empty year label, a
  dash for the mileage and a price on request, as \<open>extract_car_details\<close> stores them.
\<close>

definition unknown_year_car :: raw_car where
  "unknown_year_car = \<lparr>Nom_Total = ''Toyota Corolla'', Marque = ''Toyota'', Modele = ''Corolla'',
      Carburant = ''Diesel'', Boite = ''Automatique'', Prix = ''Prixsurdemande'',
      Kilometrage = ''-'', Annee = []\<rparr>"




definition timed_out :: "string \<Rightarrow> string + response" where
  "timed_out url = Inl ''Read timed out.''"

definition empty_page :: "string \<Rightarrow> string + response" where
  "empty_page url = Inr \<lparr>status_code = 200, reason = ''OK'', resp_url = url, resp_text = []\<rparr>"

definition empty_soup :: "string \<Rightarrow> py_error + node" where
  "empty_soup markup = Inr (Tag ''[document]'' [] [])"




section \<open>Properties of extract_car_details\<close>

lemma split1_first: "getitem (split1 s c) 0 = Inr (takeWhile (\<lambda>x. x \<noteq> c) s)"
  by (auto simp: split1_def getitem_def intro: takeWhile_eq_all_conv [THEN iffD2, symmetric])

lemma split1_second:
  "(if length (split1 s c) > 1 then getitem (split1 s c) 1 else Inr ''N/A'') =
     Inr (if c \<in> set s then tl (dropWhile (\<lambda>x. x \<noteq> c) s) else ''N/A'')"
  by (simp add: split1_def getitem_def)

lemma extract_try_no_options:
  assumes "find_all car_div ''div'' (Some ''options'') = []"
  shows "extract_try car_div = Inr None"
  unfolding extract_try_def Let_def split1_first split1_second
  using assms by simp

lemma extract_try_few_options:
  assumes "find_all car_div ''div'' (Some ''options'') = opts # others"
    and "length (find_all opts ''div'' None) < 4"
  shows "extract_try car_div = Inr None"
  unfolding extract_try_def Let_def split1_first split1_second
  using assms by (simp add: getitem_def)

lemma extract_try_record:
  assumes "find_all car_div ''div'' (Some ''options'') = opts # others"
    and "find_all opts ''div'' None = d0 # d1 # d2 # d3 # rest"
  shows "extract_try car_div =
     Inr (Some \<lparr>Nom_Total = text_or_na (find car_div ''h3'' (Some ''lib-car'')),
                Marque = takeWhile (\<lambda>x. x \<noteq> CHR '' '') (text_or_na (find car_div ''h3'' (Some ''lib-car''))),
                Modele = (if CHR '' '' \<in> set (text_or_na (find car_div ''h3'' (Some ''lib-car'')))
                          then tl (dropWhile (\<lambda>x. x \<noteq> CHR '' '') (text_or_na (find car_div ''h3'' (Some ''lib-car''))))
                          else ''N/A''),
                Carburant = text_or_na (find d2 ''span'' None),
                Boite = text_or_na (find d3 ''span'' None),
                Prix = (case find car_div ''div'' (Some ''price'') of
                         Some p \<Rightarrow> replace (replace (strip (get_text p)) '' '' '''') ''DT'' ''''
                       | None \<Rightarrow> ''N/A''),
                Kilometrage = (case find d1 ''span'' None of
                                            Some k \<Rightarrow> replace (replace (strip (get_text k)) '' Km'' '''') '' '' ''''
                                          | None \<Rightarrow> ''N/A''),
                Annee = text_or_na (find d0 ''span'' None)\<rparr>)"
  unfolding extract_try_def Let_def split1_first split1_second
  using assms by (simp add: getitem_def)

lemma extract_try_cases:
  "find_all car_div ''div'' (Some ''options'') = [] \<or>
   (\<exists>opts others. find_all car_div ''div'' (Some ''options'') = opts # others \<and> length (find_all opts ''div'' None) < 4) \<or>
   (\<exists>opts others d0 d1 d2 d3 rest. find_all car_div ''div'' (Some ''options'') = opts # others \<and> find_all opts ''div'' None = d0 # d1 # d2 # d3 # rest)"
proof (cases "find_all car_div ''div'' (Some ''options'')")
  case Nil
  then show ?thesis by simp
next
  case (Cons opts others)
  show ?thesis
  proof (cases "length (find_all opts ''div'' None) < 4")
    case True
    with Cons show ?thesis by simp
  next
    case False
    then obtain d0 d1 d2 d3 rest where "find_all opts ''div'' None = d0 # d1 # d2 # d3 # rest"
      by (auto simp: not_less numeral_eq_Suc Suc_le_length_iff)
    with Cons show ?thesis by simp
  qed
qed

text \<open>
  On a document tree no statement of the body raises: every index is guarded. The handler
  of \<open>extract_car_details\<close> is never entered and the function logs nothing.
\<close>

lemma extract_try_returns: "\<exists>r. extract_try car_div = Inr r"
  using extract_try_cases [of car_div]
  by (auto simp: extract_try_no_options extract_try_few_options extract_try_record)

lemma extract_car_details_silent: "snd (extract_car_details car_div) = []"
  using extract_try_returns [of car_div] by (auto simp: extract_car_details_def)

lemmas eval_extract = extract_car_details_def extract_try_def find_def find_all_def text_or_na_def
  split1_def getitem_def strip_def isspace_def replace_def

text \<open>
  Claim C1. A listing block without an options container (no \<open>div\<close> of class \<open>options\<close>
  below it) gives no record, and so does a block whose options container, the first such
  \<open>div\<close>, has fewer than four sub-sections, which the code counts as the \<open>div\<close> elements
  below the container. Both are the early \<open>return None\<close>: nothing is logged and no
  partial record is emitted.
\<close>

theorem extract_skips_without_four_options:
  "(find_all car_div ''div'' (Some ''options'') = [] \<longrightarrow>
      extract_car_details car_div = (None, [])) \<and>
   (\<forall>opts others. find_all car_div ''div'' (Some ''options'') = opts # others \<and>
        length (find_all opts ''div'' None) < 4 \<longrightarrow>
      extract_car_details car_div = (None, []))"
  by (simp add: extract_car_details_def extract_try_no_options extract_try_few_options)

theorem extract_skips_without_four_options_witness:
  "extract_car_details (Tag ''div'' [] [Tag ''h3'' [''lib-car''] [NavigableString ''Toyota Corolla'']]) = (None, [])
   \<and> extract_car_details (Tag ''div'' []
         [Tag ''h3'' [''lib-car''] [NavigableString ''Toyota Corolla''],
          Tag ''div'' [''options'']
            [Tag ''div'' [] [Tag ''span'' [] [NavigableString ''2015'']],
             Tag ''div'' [] [Tag ''span'' [] [NavigableString ''80 000 Km'']],
             Tag ''div'' [] [Tag ''span'' [] [NavigableString ''Diesel'']]]]) = (None, [])"
proof -
  let ?a = "Tag ''div'' [] [Tag ''h3'' [''lib-car''] [NavigableString ''Toyota Corolla'']]"
  let ?o = "Tag ''div'' [''options'']
            [Tag ''div'' [] [Tag ''span'' [] [NavigableString ''2015'']],
             Tag ''div'' [] [Tag ''span'' [] [NavigableString ''80 000 Km'']],
             Tag ''div'' [] [Tag ''span'' [] [NavigableString ''Diesel'']]]"
  let ?b = "Tag ''div'' [] [Tag ''h3'' [''lib-car''] [NavigableString ''Toyota Corolla''], ?o]"
  have a: "find_all ?a ''div'' (Some ''options'') = []"
    by (simp add: find_all_def)
  have b: "find_all ?b ''div'' (Some ''options'') = ?o # [] \<and> length (find_all ?o ''div'' None) < 4"
    by (simp add: find_all_def)
  from extract_skips_without_four_options [of ?a] a
  have "extract_car_details ?a = (None, [])" by blast
  moreover from extract_skips_without_four_options [of ?b] b
  have "extract_car_details ?b = (None, [])" by blast
  ultimately show ?thesis by simp
qed

lemma takeWhile_space_split:
  assumes "c \<in> set s"
  shows "takeWhile (\<lambda>x. x \<noteq> c) s @ c # tl (dropWhile (\<lambda>x. x \<noteq> c) s) = s"
proof -
  from assms have "dropWhile (\<lambda>x. x \<noteq> c) s \<noteq> []" by (simp add: dropWhile_eq_Nil_conv) 
  moreover from this have "hd (dropWhile (\<lambda>x. x \<noteq> c) s) = c"
    using hd_dropWhile [of "\<lambda>x. x \<noteq> c" s] by simp
  ultimately have "dropWhile (\<lambda>x. x \<noteq> c) s = c # tl (dropWhile (\<lambda>x. x \<noteq> c) s)"
    by (cases "dropWhile (\<lambda>x. x \<noteq> c) s") auto
  with takeWhile_dropWhile_id [of "\<lambda>x. x \<noteq> c" s] show ?thesis by simp
qed

lemma extract_name_parts:
  assumes "extract_try car_div = Inr (Some r)"
  shows "Marque r = takeWhile (\<lambda>x. x \<noteq> CHR '' '') (Nom_Total r) \<and>
         Modele r = (if CHR '' '' \<in> set (Nom_Total r)
                     then tl (dropWhile (\<lambda>x. x \<noteq> CHR '' '') (Nom_Total r)) else ''N/A'')"
  using extract_try_cases [of car_div] assms
  by (auto simp: extract_try_no_options extract_try_few_options extract_try_record)

text \<open>
  Claim C7, as the code has it. The name is cut by \<open>split(' ', 1)\<close>, at the first space
  character: in every record that \<open>extract_car_details\<close> returns, a name with a space is
  the brand, one space and the model, and the brand holds no space; a name without a
  space is the brand as a whole, and the model is the unknown marker.
\<close>

theorem extract_brand_model_split_at_first_space:
  assumes "fst (extract_car_details car_div) = Some r"
  shows "if CHR '' '' \<in> set (Nom_Total r)
         then Nom_Total r = Marque r @ '' '' @ Modele r \<and> CHR '' '' \<notin> set (Marque r)
         else Marque r = Nom_Total r \<and> Modele r = ''N/A''"
proof -
  from assms have "extract_try car_div = Inr (Some r)"
    by (auto simp: extract_car_details_def split: sum.splits)
  then have parts: "Marque r = takeWhile (\<lambda>x. x \<noteq> CHR '' '') (Nom_Total r)"
      "Modele r = (if CHR '' '' \<in> set (Nom_Total r)
                     then tl (dropWhile (\<lambda>x. x \<noteq> CHR '' '') (Nom_Total r)) else ''N/A'')"
    using extract_name_parts by blast+
  show ?thesis
  proof (cases "CHR '' '' \<in> set (Nom_Total r)")
    case True
    have "CHR '' '' \<notin> set (takeWhile (\<lambda>x. x \<noteq> CHR '' '') (Nom_Total r))"
      by (auto dest: set_takeWhileD)
    with True parts takeWhile_space_split [of "CHR '' ''" "Nom_Total r"] show ?thesis by simp
  next
    case False
    then have "takeWhile (\<lambda>x. x \<noteq> CHR '' '') (Nom_Total r) = Nom_Total r"
      by (auto simp: takeWhile_eq_all_conv)
    with False parts show ?thesis by simp
  qed
qed

theorem extract_brand_model_split_at_first_space_witness:
  "fst (extract_car_details example_block) =
     Some \<lparr>Nom_Total = ''Toyota Corolla'', Marque = ''Toyota'', Modele = ''Corolla'',
           Carburant = ''Diesel'', Boite = ''Automatique'', Prix = ''45000'',
           Kilometrage = ''80000'', Annee = ''2015''\<rparr>
   \<and> ''Toyota Corolla'' = ''Toyota'' @ '' '' @ ''Corolla'' \<and> CHR '' '' \<notin> set ''Toyota''"
proof -
  have e: "fst (extract_car_details example_block) =
     Some \<lparr>Nom_Total = ''Toyota Corolla'', Marque = ''Toyota'', Modele = ''Corolla'',
           Carburant = ''Diesel'', Boite = ''Automatique'', Prix = ''45000'',
           Kilometrage = ''80000'', Annee = ''2015''\<rparr>"
    by (simp add: example_block_def eval_extract)
  from extract_brand_model_split_at_first_space [OF e] e show ?thesis by simp
qed

text \<open>
  Claim C7 as it is worded does not hold: whitespace other than the space character does
  not delimit the brand. A title whose two words are separated by a line feed comes out
  with the whole name as its brand and the unknown marker as its model, while the first
  whitespace-delimited token of that name is \<open>Toyota\<close>.
\<close>

theorem extract_brand_not_first_whitespace_token:
  "fst (extract_car_details (Tag ''div'' []
         [Tag ''h3'' [''lib-car''] [NavigableString (''Toyota'' @ [CHR 0x0A] @ ''Corolla'')],
          Tag ''div'' [''options''] [Tag ''div'' [] [], Tag ''div'' [] [], Tag ''div'' [] [], Tag ''div'' [] []]]))
   = Some \<lparr>Nom_Total = ''Toyota'' @ [CHR 0x0A] @ ''Corolla'',
            Marque = ''Toyota'' @ [CHR 0x0A] @ ''Corolla'', Modele = ''N/A'',
            Carburant = ''N/A'', Boite = ''N/A'', Prix = ''N/A'', Kilometrage = ''N/A'', Annee = ''N/A''\<rparr>
   \<and> spec_first_token (''Toyota'' @ [CHR 0x0A] @ ''Corolla'') = ''Toyota''
   \<and> ''Toyota'' @ [CHR 0x0A] @ ''Corolla'' \<noteq> spec_first_token (''Toyota'' @ [CHR 0x0A] @ ''Corolla'')"
  by (simp add: eval_extract spec_first_token_def Let_def)

section \<open>Properties of clean_and_format_data\<close>

lemma py_int_raises: "py_int s = Inl e \<Longrightarrow> e = ValueError"
  by (auto simp: py_int_def split: if_splits)

lemma py_int_empty: "py_int [] = Inl ValueError"
  by (simp add: py_int_def)

lemma compute_age_returns: "\<exists>age. compute_age current_year year = Inr age"
  by (auto simp: compute_age_def split: sum.splits py_error.splits dest: py_int_raises)

lemma clean_car_returns: "\<exists>c. clean_car current_year car = Inr c"
  using compute_age_returns [of current_year "scrub (Annee car)"]
  by (auto simp: clean_car_def Let_def)

lemma clean_car_fields:
  assumes "clean_car current_year car = Inr c"
  shows "c_Nom_Total c = Nom_Total car" "c_Marque c = Marque car" "c_Modele c = Modele car"
    "c_Carburant c = Carburant car" "c_Boite c = Boite car"
    "c_Annee c = scrub (Annee car)" "c_Kilometrage_Km c = scrub (Kilometrage car)"
    "c_Prix_DT c = scrub (Prix car)"
    "compute_age current_year (scrub (Annee car)) = Inr (c_Age_Years c)"
  using assms by (auto simp: clean_car_def Let_def split: sum.splits)

lemma clean_loop_rel:
  "\<exists>cs. clean_loop current_year cars acc = Inr (acc @ cs) \<and>
        list_all2 (\<lambda>car c. clean_car current_year car = Inr c) (present cars) cs"
proof (induction cars arbitrary: acc)
  case Nil
  show ?case by simp
next
  case (Cons x cars)
  show ?case
  proof (cases x)
    case None
    with Cons.IH [of acc] show ?thesis by simp
  next
    case (Some car)
    obtain c where c: "clean_car current_year car = Inr c"
      using clean_car_returns by blast
    from Cons.IH [of "acc @ [c]"] obtain cs where
      "clean_loop current_year cars (acc @ [c]) = Inr ((acc @ [c]) @ cs)"
      "list_all2 (\<lambda>car c. clean_car current_year car = Inr c) (present cars) cs"
      by blast
    with Some c have "clean_loop current_year (x # cars) acc = Inr (acc @ (c # cs)) \<and>
        list_all2 (\<lambda>car c. clean_car current_year car = Inr c) (present (x # cars)) (c # cs)"
      by simp
    then show ?thesis by blast
  qed
qed

lemma clean_and_format_data_rel:
  "\<exists>cs. clean_and_format_data current_year cars = Inr cs \<and>
        list_all2 (\<lambda>car c. clean_car current_year car = Inr c) (present cars) cs"
  using clean_loop_rel [of current_year cars "[]"] by (simp add: clean_and_format_data_def)

lemma isdigit_nth: "k < 10 \<Longrightarrow> isdigit (''0123456789'' ! k)"
proof -
  assume "k < 10"
  then have "k \<in> {0, 1, 2, 3, 4, 5, 6, 7, 8, 9}" by auto
  then show ?thesis by (auto simp: isdigit_def)
qed

lemma str_nat_digits: "list_all isdigit (str_nat n)"
proof (induction n rule: str_nat.induct)
  case (1 n)
  show ?case
  proof (cases "n < 10")
    case True
    then show ?thesis by (subst str_nat.simps) (simp add: isdigit_nth)
  next
    case False
    with 1 show ?thesis by (subst str_nat.simps) (simp add: isdigit_nth)
  qed
qed

lemma digits_not_marker: "list_all isdigit s \<Longrightarrow> s \<noteq> ''N/A''"
  by (auto simp: isdigit_def)

lemma sub_non_digits_digits: "list_all isdigit s \<Longrightarrow> sub_non_digits s = s"
  by (simp add: sub_non_digits_def list_all_iff)

text \<open>
  Claim C9. A string of digit characters only is left as it is by the scrub, with or
  without the guard for the unknown marker; so the scrub of a scrubbed text is that text
  again, for every text.
\<close>

theorem scrub_idempotent:
  "(list_all isdigit s \<longrightarrow> sub_non_digits s = s \<and> scrub s = s) \<and>
   sub_non_digits (sub_non_digits s) = sub_non_digits s \<and> scrub (scrub s) = scrub s"
proof -
  have a: "list_all isdigit s \<longrightarrow> sub_non_digits s = s \<and> scrub s = s"
    using digits_not_marker [of s] sub_non_digits_digits [of s] by (simp add: scrub_def)
  have d: "list_all isdigit (sub_non_digits s)"
    by (simp add: sub_non_digits_def list_all_iff)
  have b: "sub_non_digits (sub_non_digits s) = sub_non_digits s"
    using d by (rule sub_non_digits_digits)
  have c: "scrub (scrub s) = scrub s"
    using digits_not_marker [OF d] b by (simp add: scrub_def)
  from a b c show ?thesis by simp
qed

theorem scrub_idempotent_witness:
  "list_all isdigit ''80000'' \<and> sub_non_digits ''80000'' = ''80000'' \<and> scrub ''80000'' = ''80000''
   \<and> scrub (scrub ''80 000 Km'') = scrub ''80 000 Km'' \<and> scrub ''80 000 Km'' = ''80000''"
proof -
  have h: "list_all isdigit ''80000''" by (simp add: isdigit_def)
  have e: "scrub ''80 000 Km'' = ''80000''" by (simp add: scrub_def sub_non_digits_def isdigit_def)
  from scrub_idempotent [of "''80000''"] scrub_idempotent [of "''80 000 Km''"] h e
  show ?thesis by simp
qed

lemma clean_car_age_unknown:
  assumes "clean_car current_year car = Inr c"
    and "scrub (Annee car) = [] \<or> (\<forall>x\<in>set (Annee car). \<not> isdigit x)"
  shows "c_Age_Years c = ''N/A''"
proof -
  have age: "compute_age current_year (scrub (Annee car)) = Inr (c_Age_Years c)"
    using assms(1) by (rule clean_car_fields)
  show ?thesis
  proof (cases "Annee car = ''N/A''")
    case True
    with age show ?thesis by (simp add: scrub_def compute_age_def)
  next
    case False
    with assms(2) have "scrub (Annee car) = []"
      by (auto simp: scrub_def sub_non_digits_def)
    with age show ?thesis by (simp add: compute_age_def py_int_empty)
  qed
qed

text \<open>
  Claim C6. Normalization returns for every batch, and in the record made from a raw
  record whose year text scrubs to the empty string or holds no digit, the age is the
  unknown marker. The records of the result stand in order against the records of the
  batch.
\<close>

theorem age_unknown_without_year_digits:
  "\<exists>cs. clean_and_format_data current_year cars = Inr cs \<and>
     list_all2 (\<lambda>car c. scrub (Annee car) = [] \<or> (\<forall>x\<in>set (Annee car). \<not> isdigit x)
                  \<longrightarrow> c_Age_Years c = ''N/A'') (present cars) cs"
proof -
  obtain cs where cs: "clean_and_format_data current_year cars = Inr cs"
      "list_all2 (\<lambda>car c. clean_car current_year car = Inr c) (present cars) cs"
    using clean_and_format_data_rel by blast
  from cs(2) have "list_all2 (\<lambda>car c. scrub (Annee car) = [] \<or> (\<forall>x\<in>set (Annee car). \<not> isdigit x)
                  \<longrightarrow> c_Age_Years c = ''N/A'') (present cars) cs"
    by (rule list_all2_mono) (blast intro: clean_car_age_unknown)
  with cs(1) show ?thesis by blast
qed

theorem age_unknown_without_year_digits_witness:
  "(scrub (Annee unknown_year_car) = [] \<or> (\<forall>x\<in>set (Annee unknown_year_car). \<not> isdigit x)) \<and>
   (\<exists>c. clean_and_format_data 2026 [Some unknown_year_car] = Inr [c] \<and> c_Age_Years c = ''N/A'')"
  using age_unknown_without_year_digits [of 2026 "[Some unknown_year_car]"]
  by (auto simp: unknown_year_car_def scrub_def sub_non_digits_def list_all2_Cons1)

text \<open>
  Claim C4, as the code has it. Normalization returns for every batch, whatever the texts,
  and the year, mileage and price of each record are the unknown marker when the raw text
  is the unknown marker, and otherwise the digits of the raw text in order: the empty
  string when the text holds no digit.
\<close>

theorem normalization_scrubs_numeric_fields:
  "\<exists>cs. clean_and_format_data current_year cars = Inr cs \<and>
     list_all2 (\<lambda>car c.
        c_Annee c = (if Annee car = ''N/A'' then ''N/A'' else filter isdigit (Annee car)) \<and>
        c_Kilometrage_Km c =
          (if Kilometrage car = ''N/A'' then ''N/A'' else filter isdigit (Kilometrage car)) \<and>
        c_Prix_DT c = (if Prix car = ''N/A'' then ''N/A'' else filter isdigit (Prix car)))
       (present cars) cs"
proof -
  obtain cs where cs: "clean_and_format_data current_year cars = Inr cs"
      "list_all2 (\<lambda>car c. clean_car current_year car = Inr c) (present cars) cs"
    using clean_and_format_data_rel by blast
  from cs(2) have "list_all2 (\<lambda>car c.
        c_Annee c = (if Annee car = ''N/A'' then ''N/A'' else filter isdigit (Annee car)) \<and>
        c_Kilometrage_Km c =
          (if Kilometrage car = ''N/A'' then ''N/A'' else filter isdigit (Kilometrage car)) \<and>
        c_Prix_DT c = (if Prix car = ''N/A'' then ''N/A'' else filter isdigit (Prix car)))
       (present cars) cs"
    by (rule list_all2_mono) (simp add: clean_car_fields scrub_def sub_non_digits_def)
  with cs(1) show ?thesis by blast
qed

theorem normalization_scrubs_numeric_fields_witness:
  "\<exists>c. clean_and_format_data 2026 [None, Some unknown_year_car] = Inr [c] \<and>
        c_Annee c = [] \<and> c_Kilometrage_Km c = [] \<and> c_Prix_DT c = []"
  using normalization_scrubs_numeric_fields [of 2026 "[None, Some unknown_year_car]"]
  by (auto simp: unknown_year_car_def isdigit_def list_all2_Cons1)

text \<open>
  Claim C4 as it is worded does not hold: a text that scrubs to the empty string comes out
  as the empty string, not as the unknown marker. Only the age of such a record is the
  unknown marker.
\<close>

theorem scrub_to_empty_is_not_marker:
  "clean_and_format_data 2026 [Some unknown_year_car] =
     Inr [\<lparr>c_Nom_Total = ''Toyota Corolla'', c_Marque = ''Toyota'', c_Modele = ''Corolla'',
           c_Annee = [], c_Age_Years = ''N/A'', c_Kilometrage_Km = [],
           c_Carburant = ''Diesel'', c_Boite = ''Automatique'', c_Prix_DT = []\<rparr>]
   \<and> sub_non_digits (Annee unknown_year_car) = [] \<and> [] \<noteq> ''N/A''"
  by (simp add: unknown_year_car_def clean_and_format_data_def clean_car_def compute_age_def scrub_def
  sub_non_digits_def isdigit_def py_int_def)

text \<open>
  Claim C10. The full name, the brand, the model, the fuel type and the transmission of
  each normalized record are those of the raw record it was made from.
\<close>

theorem normalization_keeps_text_fields:
  "\<exists>cs. clean_and_format_data current_year cars = Inr cs \<and>
     list_all2 (\<lambda>car c. c_Nom_Total c = Nom_Total car \<and> c_Marque c = Marque car \<and>
                  c_Modele c = Modele car \<and> c_Carburant c = Carburant car \<and>
                  c_Boite c = Boite car) (present cars) cs"
proof -
  obtain cs where cs: "clean_and_format_data current_year cars = Inr cs"
      "list_all2 (\<lambda>car c. clean_car current_year car = Inr c) (present cars) cs"
    using clean_and_format_data_rel by blast
  from cs(2) have "list_all2 (\<lambda>car c. c_Nom_Total c = Nom_Total car \<and> c_Marque c = Marque car \<and>
                  c_Modele c = Modele car \<and> c_Carburant c = Carburant car \<and>
                  c_Boite c = Boite car) (present cars) cs"
    by (rule list_all2_mono) (simp add: clean_car_fields)
  with cs(1) show ?thesis by blast
qed

theorem normalization_keeps_text_fields_witness:
  "\<exists>c. clean_and_format_data 2026 [Some unknown_year_car, None] = Inr [c] \<and>
        c_Nom_Total c = ''Toyota Corolla'' \<and> c_Marque c = ''Toyota'' \<and> c_Modele c = ''Corolla'' \<and>
        c_Carburant c = ''Diesel'' \<and> c_Boite c = ''Automatique''"
  using normalization_keeps_text_fields [of 2026 "[Some unknown_year_car, None]"]
  by (auto simp: unknown_year_car_def list_all2_Cons1)

lemma py_str_digits: "0 \<le> i \<Longrightarrow> list_all isdigit (py_str i)"
  by (simp add: py_str_def str_nat_digits)

lemma py_int_2015: "py_int ''2015'' = Inr 2015"
  by (simp add: py_int_def max_str_digits_def isdigit_def digit_value_def)

text \<open>
  Claim C2. The worked example: a block whose title reads \<open>Toyota Corolla\<close>, whose
  price reads \<open>45 000 DT\<close> and whose options container starts with four sub-sections
  labelled \<open>2015\<close>, \<open>80 000 Km\<close>, \<open>Diesel\<close> and \<open>Automatique\<close> is extracted and
  normalized to the record below, in any year; from 2015 on the age is a string of digits.
\<close>

theorem worked_example:
  assumes "find car_div ''h3'' (Some ''lib-car'') = Some title"
    and "get_text title = ''Toyota Corolla''"
    and "find car_div ''div'' (Some ''price'') = Some price"
    and "get_text price = ''45 000 DT''"
    and "find_all car_div ''div'' (Some ''options'') = opts # others"
    and "find_all opts ''div'' None = d0 # d1 # d2 # d3 # rest"
    and "find d0 ''span'' None = Some year" and "get_text year = ''2015''"
    and "find d1 ''span'' None = Some km" and "get_text km = ''80 000 Km''"
    and "find d2 ''span'' None = Some fuel" and "get_text fuel = ''Diesel''"
    and "find d3 ''span'' None = Some gear" and "get_text gear = ''Automatique''"
  shows "clean_and_format_data current_year [fst (extract_car_details car_div)] =
           Inr [\<lparr>c_Nom_Total = ''Toyota Corolla'', c_Marque = ''Toyota'', c_Modele = ''Corolla'',
                 c_Annee = ''2015'', c_Age_Years = py_str (current_year - 2015),
                 c_Kilometrage_Km = ''80000'', c_Carburant = ''Diesel'',
                 c_Boite = ''Automatique'', c_Prix_DT = ''45000''\<rparr>]
         \<and> (2015 \<le> current_year \<longrightarrow> list_all isdigit (py_str (current_year - 2015)))"
proof -
  have raw: "extract_try car_div =
      Inr (Some \<lparr>Nom_Total = ''Toyota Corolla'', Marque = ''Toyota'', Modele = ''Corolla'',
                 Carburant = ''Diesel'', Boite = ''Automatique'', Prix = ''45000'',
                 Kilometrage = ''80000'', Annee = ''2015''\<rparr>)"
    by (simp add: extract_try_record [OF assms(5) assms(6)] assms text_or_na_def strip_def
        isspace_def replace_def)
  have "clean_car current_year \<lparr>Nom_Total = ''Toyota Corolla'', Marque = ''Toyota'',
          Modele = ''Corolla'', Carburant = ''Diesel'', Boite = ''Automatique'', Prix = ''45000'',
          Kilometrage = ''80000'', Annee = ''2015''\<rparr> =
        Inr \<lparr>c_Nom_Total = ''Toyota Corolla'', c_Marque = ''Toyota'', c_Modele = ''Corolla'',
              c_Annee = ''2015'', c_Age_Years = py_str (current_year - 2015),
              c_Kilometrage_Km = ''80000'', c_Carburant = ''Diesel'',
              c_Boite = ''Automatique'', c_Prix_DT = ''45000''\<rparr>"
    by (simp add: clean_car_def compute_age_def scrub_def sub_non_digits_def isdigit_def
        py_int_2015)
  with raw have "clean_and_format_data current_year [fst (extract_car_details car_div)] =
           Inr [\<lparr>c_Nom_Total = ''Toyota Corolla'', c_Marque = ''Toyota'', c_Modele = ''Corolla'',
                 c_Annee = ''2015'', c_Age_Years = py_str (current_year - 2015),
                 c_Kilometrage_Km = ''80000'', c_Carburant = ''Diesel'',
                 c_Boite = ''Automatique'', c_Prix_DT = ''45000''\<rparr>]"
    by (simp add: clean_and_format_data_def extract_car_details_def)
  then show ?thesis by (simp add: py_str_digits)
qed

theorem worked_example_witness:
  "clean_and_format_data 2026 [fst (extract_car_details example_block)] =
     Inr [\<lparr>c_Nom_Total = ''Toyota Corolla'', c_Marque = ''Toyota'', c_Modele = ''Corolla'',
           c_Annee = ''2015'', c_Age_Years = ''11'', c_Kilometrage_Km = ''80000'',
           c_Carburant = ''Diesel'', c_Boite = ''Automatique'', c_Prix_DT = ''45000''\<rparr>]"
proof -
  let ?span = "\<lambda>s. Tag ''span'' [] [NavigableString s]"
  let ?sub = "\<lambda>s. Tag ''div'' [] [?span s]"
  let ?title = "Tag ''h3'' [''lib-car''] [NavigableString ''Toyota Corolla'']"
  let ?price = "Tag ''div'' [''price''] [NavigableString ''45 000 DT'']"
  let ?opts = "Tag ''div'' [''options'']
                 [?sub ''2015'', ?sub ''80 000 Km'', ?sub ''Diesel'', ?sub ''Automatique'']"
  have age: "py_str (2026 - 2015) = ''11''"
    by (simp add: py_str_def str_nat.simps)
  have "clean_and_format_data 2026 [fst (extract_car_details example_block)] =
     Inr [\<lparr>c_Nom_Total = ''Toyota Corolla'', c_Marque = ''Toyota'', c_Modele = ''Corolla'',
           c_Annee = ''2015'', c_Age_Years = py_str (2026 - 2015), c_Kilometrage_Km = ''80000'',
           c_Carburant = ''Diesel'', c_Boite = ''Automatique'', c_Prix_DT = ''45000''\<rparr>]
     \<and> (2015 \<le> (2026::int) \<longrightarrow> list_all isdigit (py_str (2026 - 2015)))"
  proof (rule worked_example [where title = ?title and price = ?price and opts = ?opts
        and others = "[]" and rest = "[]"
        and ?d0.0 = "?sub ''2015''" and ?d1.0 = "?sub ''80 000 Km''"
        and ?d2.0 = "?sub ''Diesel''" and ?d3.0 = "?sub ''Automatique''"
        and year = "?span ''2015''" and km = "?span ''80 000 Km''"
        and fuel = "?span ''Diesel''" and gear = "?span ''Automatique''"])
  qed (simp_all add: example_block_def find_def find_all_def)
  with age show ?thesis by simp
qed

section \<open>Properties of scrape_car_listings and save_to_csv\<close>













lemmas eval_scrape = scrape_car_listings_def scrape_page_def page_try_def page_url_def
  raise_for_status_def py_str_def str_nat.simps find_all_def Let_def



text \<open>
  Claim C5 at two runs of two pages. Against a server that never answers in time, the
  second request follows the error line of the first page with no pause between them, and
  the run ends without one. Against a server that answers, each page is followed by the
  pause of one second.
\<close>

theorem no_pause_after_failed_page:
  "scrape_car_listings timed_out empty_soup ''https://host/search?x=1'' 2 =
     (Inr [],
      [HttpGet ''https://host/search?x=1&page=1'',
       LogError ''Error scraping page 1: Read timed out.'',
       HttpGet ''https://host/search?x=1&page=2'',
       LogError ''Error scraping page 2: Read timed out.''])
   \<and> scrape_car_listings empty_page empty_soup ''https://host/search?x=1'' 2 =
     (Inr [],
      [HttpGet ''https://host/search?x=1&page=1'',
       LogInfo ''Scraped page 1: 0 cars found'', Sleep 1,
       HttpGet ''https://host/search?x=1&page=2'',
       LogInfo ''Scraped page 2: 0 cars found'', Sleep 1])"
  by (simp add: eval_scrape timed_out_def empty_page_def empty_soup_def upto_rec1)

text \<open>
  Claim C8. Without records, \<open>save_to_csv\<close> returns after one warning line: the file
  is not opened, whether that would fail or not, and nothing is logged as an error.
\<close>

theorem save_nothing_without_records:
  "save_to_csv io_error current_year [] filename = (None, [LogWarning ''No data to save''])"
  by (simp add: save_to_csv_def)

theorem save_nothing_without_records_witness:
  "save_to_csv (OpenFails ''Permission denied'') 2026 [] ''car_listings.csv'' = (None, [LogWarning ''No data to save''])"
  using save_nothing_without_records [of "OpenFails ''Permission denied''" 2026 "''car_listings.csv''"] by simp

end
